theory Spec2Isabelle
  imports Complex_Main
begin

section \<open>JavaScript values used by the programs\<close>

text \<open>
  The four programs are TypeScript run by Node. Numbers are IEEE doubles; the finite ones
  are rationals, and the programs only compare them, take minima and truncate them, which
  is exact on doubles, so a number is a \<open>rat\<close> here (NaN and the infinities are left out).
  A thrown value is an \<open>Error\<close> object with a string \<open>message\<close>: that is what
  \<open>new Error(...)\<close>, the fetch library, \<open>JSON.parse\<close> and a failed property read throw.
\<close>

type_synonym number = rat

datatype js_error = Error (message: string)

text \<open>
  A value produced by \<open>JSON.parse\<close>. The members of an object are an association
  list, looked up with \<open>map_of\<close>; \<open>undefined\<close> is \<open>None\<close> of \<open>json option\<close>.
\<close>

datatype json =
    JNull
  | JBool bool
  | JNum number
  | JStr string
  | JArr "json list"
  | JObj "(string \<times> json) list"

type_synonym jsval = "json option"

text \<open>
  The built-ins of the runtime that the programs call and that are not part of the
  repository, taken as parameters: \<open>JSON.parse\<close> (\<open>Inl\<close> is the SyntaxError it
  throws), \<open>JSON.stringify\<close>, the conversion of a value that is not a string to a string
  (template literals, \<open>new Error(v)\<close>), and \<open>String.prototype.toLowerCase\<close>.
\<close>

record js_runtime =
  JSON_parse :: "string \<Rightarrow> js_error + json"
  JSON_stringify :: "json \<Rightarrow> string"
  ToString :: "jsval \<Rightarrow> string"
  toLowerCase :: "string \<Rightarrow> string"

text \<open>\<open>String(v)\<close>: a string is itself, every other value goes through the runtime.\<close>

fun to_string :: "js_runtime \<Rightarrow> jsval \<Rightarrow> string" where
  "to_string rt (Some (JStr s)) = s"
| "to_string rt v = ToString rt v"

text \<open>Truthiness, as \<open>if (v)\<close>, \<open>!v\<close> and \<open>v || w\<close> test it.\<close>

fun truthy :: "jsval \<Rightarrow> bool" where
  "truthy None = False"
| "truthy (Some JNull) = False"
| "truthy (Some (JBool b)) = b"
| "truthy (Some (JNum n)) = (n \<noteq> 0)"
| "truthy (Some (JStr s)) = (s \<noteq> [])"
| "truthy (Some (JArr xs)) = True"
| "truthy (Some (JObj kvs)) = True"

text \<open>
  \<open>data.key\<close> for the two keys the programs read (\<open>message\<close>, \<open>success\<close>), which no
  built-in prototype defines: reading a property of \<open>null\<close> throws a TypeError, an object
  gives its member or \<open>undefined\<close>, every other value gives \<open>undefined\<close>.
\<close>

fun get_prop :: "json \<Rightarrow> string \<Rightarrow> js_error + jsval" where
  "get_prop JNull k = Inl (Error (''Cannot read properties of null (reading '' @ [CHR 0x27] @ k @ [CHR 0x27] @ '')''))"
| "get_prop (JObj kvs) k = Inr (map_of kvs k)"
| "get_prop v k = Inr None"

text \<open>\<open>ToIntegerOrInfinity\<close> on a finite number: truncation towards zero.\<close>

definition trunc :: "number \<Rightarrow> int" where
  "trunc x = (if x < 0 then \<lceil>x\<rceil> else \<lfloor>x\<rfloor>)"

text \<open>
  \<open>Array.prototype.slice(start, end)\<close> on integral arguments: a negative index counts
  from the end and is clamped at 0, any other index is clamped at the length.
\<close>

definition rel_index :: "int \<Rightarrow> int \<Rightarrow> int" where
  "rel_index len i = (if i < 0 then max (len + i) 0 else min i len)"

definition slice :: "int \<Rightarrow> int \<Rightarrow> 'a list \<Rightarrow> 'a list" where
  "slice start fin xs =
     (let len = int (length xs);
          k = rel_index len start;
          final = rel_index len fin
      in take (nat (final - k)) (drop (nat k) xs))"

text \<open>\<open>xs.slice(start)\<close>: the end is the length.\<close>

definition slice_from :: "int \<Rightarrow> 'a list \<Rightarrow> 'a list" where
  "slice_from start xs = slice start (int (length xs)) xs"

text \<open>\<open>Array.prototype.join\<close> on strings.\<close>

fun join :: "string \<Rightarrow> string list \<Rightarrow> string" where
  "join sep [] = []"
| "join sep [x] = x"
| "join sep (x # y # ys) = x @ sep @ join sep (y # ys)"

text \<open>\<open>String.prototype.includes\<close> and \<open>String.prototype.endsWith\<close>.\<close>

fun js_includes :: "string \<Rightarrow> string \<Rightarrow> bool" where
  "js_includes [] needle = (needle = [])"
| "js_includes (c # cs) needle = (take (length needle) (c # cs) = needle \<or> js_includes cs needle)"

definition endsWith :: "string \<Rightarrow> string \<Rightarrow> bool" where
  "endsWith s suffix = (length suffix \<le> length s \<and> drop (length s - length suffix) s = suffix)"

definition newline :: string where
  "newline = [CHR 0x0A]"


section \<open>The tool servers\<close>

text \<open>
  Every server registers one tool, \<open>get-colors-for-mood\<close>, with a schema for its two
  arguments and a handler that returns \<open>{ content: [{ type: "text", text: ... }] }\<close>.
\<close>

record content_item =
  item_type :: string
  item_text :: jsval

record tool_result =
  content :: "content_item list"

definition text_result :: "jsval \<Rightarrow> tool_result" where
  "text_result t = \<lparr>content = [\<lparr>item_type = ''text'', item_text = t\<rparr>]\<rparr>"

subsection \<open>The declared schemas and the validation before a handler runs\<close>

text \<open>
  \<open>mood\<close> is \<open>z.string()\<close> in the three servers. \<open>count\<close> is \<open>z.number()\<close> with the
  optional refinements \<open>.min(a)\<close>, \<open>.max(b)\<close> and \<open>.default(d)\<close>; no server calls
  \<open>.int()\<close>. The record holds the refinements a declaration uses.
\<close>

record number_schema =
  minimum :: "number option"
  maximum :: "number option"
  default_value :: "number option"

text \<open>\<open>count: z.number().describe(...)\<close> (the static table).\<close>

definition static_count_schema :: number_schema where
  "static_count_schema = \<lparr>minimum = None, maximum = None, default_value = None\<rparr>"

text \<open>\<open>count: z.number().min(1).default(1).describe(...)\<close> (the remote server without clamping).\<close>

definition unclamped_count_schema :: number_schema where
  "unclamped_count_schema = \<lparr>minimum = Some 1, maximum = None, default_value = Some 1\<rparr>"

text \<open>\<open>count: z.number().min(1).max(2).default(1).describe(...)\<close> (the remote server with clamping).\<close>

definition clamped_count_schema :: number_schema where
  "clamped_count_schema = \<lparr>minimum = Some 1, maximum = Some 2, default_value = Some 1\<rparr>"

text \<open>
  What the schema library does with a declaration: a missing value takes the default
  when there is one and is refused otherwise, a number is accepted when it meets the
  inclusive bounds, anything else is refused. \<open>None\<close> is a refusal.
\<close>

definition z_number :: "number_schema \<Rightarrow> jsval \<Rightarrow> number option" where
  "z_number sch v =
     (case v of
        None \<Rightarrow> default_value sch
      | Some (JNum n) \<Rightarrow>
          (if (case minimum sch of None \<Rightarrow> True | Some a \<Rightarrow> a \<le> n)
              \<and> (case maximum sch of None \<Rightarrow> True | Some b \<Rightarrow> n \<le> b)
           then Some n else None)
      | Some _ \<Rightarrow> None)"

definition z_string :: "jsval \<Rightarrow> string option" where
  "z_string v = (case v of Some (JStr s) \<Rightarrow> Some s | _ \<Rightarrow> None)"

text \<open>The arguments of an invocation must be an object whose members pass both schemas.\<close>

definition validate_args :: "number_schema \<Rightarrow> jsval \<Rightarrow> (string \<times> number) option" where
  "validate_args sch args =
     (case args of
        Some (JObj kvs) \<Rightarrow>
          (case z_string (map_of kvs ''mood'') of
             None \<Rightarrow> None
           | Some m \<Rightarrow>
               (case z_number sch (map_of kvs ''count'') of
                  None \<Rightarrow> None
                | Some c \<Rightarrow> Some (m, c)))
      | _ \<Rightarrow> None)"

subsection \<open>The webhook\<close>

record webhook_body =
  colorCount :: number
  mood :: string

record http_request =
  url :: string
  http_method :: string
  content_type :: string
  body :: webhook_body

record http_response =
  status :: nat
  body_text :: "js_error + string"

text \<open>
  \<open>fetch\<close> either rejects (\<open>Inl\<close>) or gives a response, whose \<open>text()\<close> either rejects
  or gives the body.
\<close>

type_synonym fetch = "http_request \<Rightarrow> js_error + http_response"

definition webhook_request :: "number \<Rightarrow> string \<Rightarrow> http_request" where
  "webhook_request n m =
     \<lparr>url = ''https://workflow.sanctifai.com/webhook/color-chooser'',
      http_method = ''POST'',
      content_type = ''application/json'',
      body = \<lparr>colorCount = n, mood = m\<rparr>\<rparr>"

text \<open>
  A handler's run: the requests it sent to the webhook, and what it returned (\<open>Inr\<close>)
  or threw (\<open>Inl\<close>).
\<close>

type_synonym handler_run = "http_request list \<times> (js_error + tool_result)"

subsection \<open>The static table (weather-server-typescript/src/index.ts)\<close>

record color =
  name :: string
  hex :: string

definition moodColors :: "color list" where
  "moodColors =
     [\<lparr>name = ''Coral Red'', hex = ''#FF6B6B''\<rparr>,
      \<lparr>name = ''Ocean Turquoise'', hex = ''#4ECDC4''\<rparr>,
      \<lparr>name = ''Summer Sky Blue'', hex = ''#45B7D1''\<rparr>,
      \<lparr>name = ''Fresh Sage'', hex = ''#96CEB4''\<rparr>,
      \<lparr>name = ''Warm Sand'', hex = ''#FFEEAD''\<rparr>]"

definition format_color :: "color \<Rightarrow> string" where
  "format_color c = name c @ '' ('' @ hex c @ '')''"

definition static_handler :: "string \<Rightarrow> number \<Rightarrow> handler_run" where
  "static_handler m count =
     (let numColors = min count (of_nat (length moodColors));
          selectedColors = slice 0 (trunc numColors) moodColors;
          colorList = join newline (map format_color selectedColors);
          alertsText = ''Colors for '' @ m @ '' mood:'' @ newline @ colorList
      in ([], Inr (text_result (Some (JStr alertsText)))))"

subsection \<open>The remote server without clamping (part 000)\<close>

definition getColorsForMood_try :: "js_runtime \<Rightarrow> fetch \<Rightarrow> string \<Rightarrow> number \<Rightarrow> js_error + tool_result" where
  "getColorsForMood_try rt fetch m count =
     (case fetch (webhook_request count m) of
        Inl e \<Rightarrow> Inl e
      | Inr response \<Rightarrow>
          (case body_text response of
             Inl e \<Rightarrow> Inl e
           | Inr txt \<Rightarrow>
               (case JSON_parse rt txt of
                  Inl e \<Rightarrow> Inr (text_result (Some (JStr (''Invalid response from color API: '' @ txt))))
                | Inr data \<Rightarrow>
                    (case get_prop data ''message'' of
                       Inl e \<Rightarrow> Inl e
                     | Inr msg \<Rightarrow> Inr (text_result msg)))))"

text \<open>The outer \<open>catch\<close>: \<open>text: error.message || "Unknown error occurred"\<close>.\<close>

definition getColorsForMood :: "js_runtime \<Rightarrow> fetch \<Rightarrow> string \<Rightarrow> number \<Rightarrow> handler_run" where
  "getColorsForMood rt fetch m count =
     ([webhook_request count m],
      (case getColorsForMood_try rt fetch m count of
         Inl error \<Rightarrow>
           Inr (text_result (Some (JStr
             (if message error \<noteq> [] then message error else ''Unknown error occurred''))))
       | Inr r \<Rightarrow> Inr r))"

subsection \<open>The remote server with clamping (part 001)\<close>

definition count_limit_apology :: string where
  "count_limit_apology =
     ''Sorry, I can only provide up to 2 colors at a time. Please try again with a smaller number.''"

definition generic_apology :: string where
  "generic_apology = ''Sorry, I couldn't get color suggestions at the moment. Please try again.''"

definition clamped_handler_try :: "js_runtime \<Rightarrow> fetch \<Rightarrow> string \<Rightarrow> number \<Rightarrow> js_error + tool_result" where
  "clamped_handler_try rt fetch m count =
     (let safeCount = min count 2 in
      case fetch (webhook_request safeCount m) of
        Inl e \<Rightarrow> Inl e
      | Inr response \<Rightarrow>
          (case body_text response of
             Inl e \<Rightarrow> Inl e
           | Inr txt \<Rightarrow>
               (case JSON_parse rt txt of
                  Inl e \<Rightarrow> Inl (Error (''Invalid response from color API: '' @ txt))
                | Inr data \<Rightarrow>
                    (case get_prop data ''success'' of
                       Inl e \<Rightarrow> Inl e
                     | Inr success \<Rightarrow>
                         (case get_prop data ''message'' of
                            Inl e \<Rightarrow> Inl e
                          | Inr msg \<Rightarrow>
                              (if \<not> truthy success
                               then Inl (Error (if truthy msg then to_string rt msg
                                                else ''API request failed''))
                               else Inr (text_result (Some (JStr
                                      (''Colors for '' @ m @ '' mood:'' @ newline
                                        @ to_string rt msg))))))))))"

text \<open>The outer \<open>catch\<close>: one of two fixed texts, chosen by what the error's message includes.\<close>

definition clamped_handler :: "js_runtime \<Rightarrow> fetch \<Rightarrow> string \<Rightarrow> number \<Rightarrow> handler_run" where
  "clamped_handler rt fetch m count =
     ([webhook_request (min count 2) m],
      (case clamped_handler_try rt fetch m count of
         Inl error \<Rightarrow>
           Inr (text_result (Some (JStr
             (if js_includes (message error) ''maximum color count''
              then count_limit_apology else generic_apology))))
       | Inr r \<Rightarrow> Inr r))"

subsection \<open>The tool boundary\<close>

text \<open>
  An invocation is validated against the declared schema first; the handler runs on the
  validated arguments only.
\<close>

datatype tool_outcome = Rejected | Handled "http_request list" "js_error + tool_result"

definition call_tool :: "number_schema \<Rightarrow> (string \<Rightarrow> number \<Rightarrow> handler_run) \<Rightarrow> jsval \<Rightarrow> tool_outcome" where
  "call_tool sch handler args =
     (case validate_args sch args of
        None \<Rightarrow> Rejected
      | Some (m, c) \<Rightarrow> (case handler m c of (sent, r) \<Rightarrow> Handled sent r))"

definition static_tool :: "jsval \<Rightarrow> tool_outcome" where
  "static_tool = call_tool static_count_schema static_handler"

definition unclamped_tool :: "js_runtime \<Rightarrow> fetch \<Rightarrow> jsval \<Rightarrow> tool_outcome" where
  "unclamped_tool rt fetch = call_tool unclamped_count_schema (getColorsForMood rt fetch)"

definition clamped_tool :: "js_runtime \<Rightarrow> fetch \<Rightarrow> jsval \<Rightarrow> tool_outcome" where
  "clamped_tool rt fetch = call_tool clamped_count_schema (clamped_handler rt fetch)"

definition outbound :: "tool_outcome \<Rightarrow> http_request list" where
  "outbound out = (case out of Rejected \<Rightarrow> [] | Handled sent r \<Rightarrow> sent)"



section \<open>The orchestrating client (part 002)\<close>

subsection \<open>Messages, completions and the services the client calls\<close>

text \<open>\<open>toolCall.id\<close>, \<open>toolCall.function.name\<close> and \<open>toolCall.function.arguments\<close>.\<close>

record tool_call =
  call_id :: string
  function_name :: string
  function_arguments :: string

text \<open>
  The five shapes of message the client pushes on its history. \<open>'r\<close> is the type of a
  tool result's \<open>content\<close>, which the client stores as it comes.
  \<^item> \<open>SystemMessage c\<close> is \<open>{ role: "system", content: c }\<close>;
  \<^item> \<open>UserMessage c\<close> is \<open>{ role: "user", content: c }\<close>;
  \<^item> \<open>AssistantMessage c\<close> is \<open>{ role: "assistant", content: c }\<close>;
  \<^item> \<open>AssistantToolCalls tcs\<close> is \<open>{ role: "assistant", content: "", tool_calls: tcs }\<close>;
  \<^item> \<open>ToolMessage i c\<close> is \<open>{ role: "tool", tool_call_id: i, content: c }\<close>.
\<close>

datatype 'r message =
    SystemMessage string
  | UserMessage string
  | AssistantMessage string
  | AssistantToolCalls "tool_call list"
  | ToolMessage string 'r

text \<open>A tool as \<open>listTools\<close> reports it, and as the client advertises it to the completion service.\<close>

record tool_info =
  tool_name :: string
  tool_description :: "string option"
  inputSchema :: json

record chat_tool =
  fn_name :: string
  fn_description :: "string option"
  fn_parameters :: json

text \<open>\<open>response.choices[i].message\<close>: \<open>content\<close> may be null, \<open>tool_calls\<close> may be absent.\<close>

record choice_message =
  msg_content :: "string option"
  msg_tool_calls :: "tool_call list option"

record completion =
  choices :: "choice_message list"

record 'r completion_request =
  model :: string
  messages :: "'r message list"
  request_tools :: "chat_tool list option"
  tool_choice :: "string option"

text \<open>What the client asks of the outside, in order.\<close>

datatype 'r event =
    CompletionRequest "'r completion_request"
  | ToolInvocation string json

record transport_params =
  command :: string
  args :: "string list"

text \<open>The lines the client writes with \<open>console.log\<close>.\<close>

datatype log_line =
    LogUsage
  | LogConnected "string list"
  | LogFailedToConnect js_error
  | LogClientStarted
  | LogTypeYourQueries
  | LogResponse string

text \<open>
  The completion service, the Tool Host connection and the terminal are outside the
  repository. Each call takes the state of the outside world \<open>'w\<close> and gives the new
  one, with what the awaited promise resolved to (\<open>Inr\<close>) or rejected with (\<open>Inl\<close>).
  \<open>mcp.connect\<close> is not awaited by the client, so only its effect on the world is kept.
\<close>

record ('w, 'r) services =
  chat_completions_create :: "'w \<Rightarrow> 'r completion_request \<Rightarrow> (js_error + completion) \<times> 'w"
  callTool :: "'w \<Rightarrow> string \<Rightarrow> json \<Rightarrow> (js_error + 'r) \<times> 'w"
  mcp_connect :: "'w \<Rightarrow> transport_params \<Rightarrow> 'w"
  listTools :: "'w \<Rightarrow> (js_error + tool_info list) \<times> 'w"
  mcp_close :: "'w \<Rightarrow> (js_error + unit) \<times> 'w"
  rl_question :: "'w \<Rightarrow> (js_error + string) \<times> 'w"

subsection \<open>The client object\<close>

record 'r MCPClient =
  transport :: "transport_params option"
  tools :: "chat_tool list"
  conversationHistory :: "'r message list"
  maxHistoryLength :: nat

text \<open>The running program: the client object, the outside world, and what was observed.\<close>

record ('w, 'r) process = "'r MCPClient" +
  world :: 'w
  trace :: "'r event list"
  console :: "log_line list"

definition SYSTEM_PROMPT :: string where
  "SYSTEM_PROMPT = ''You are a helpful assistant.''"

text \<open>The field initialisers and the constructor, started in the world \<open>w\<close>.\<close>

definition new_MCPClient :: "'w \<Rightarrow> ('w, 'r) process" where
  "new_MCPClient w =
     \<lparr>transport = None,
      tools = [],
      conversationHistory = [] @ [SystemMessage SYSTEM_PROMPT],
      maxHistoryLength = 10,
      world = w,
      trace = [],
      console = []\<rparr>"

definition trimConversationHistory :: "('r, 'z) MCPClient_scheme \<Rightarrow> ('r, 'z) MCPClient_scheme" where
  "trimConversationHistory c =
     (if int (length (conversationHistory c)) > int (maxHistoryLength c) * 2 + 1
      then
        (let systemMessage = conversationHistory c ! 0;
             recentMessages = slice_from (- (int (maxHistoryLength c) * 2)) (conversationHistory c)
         in c\<lparr>conversationHistory := systemMessage # recentMessages\<rparr>)
      else c)"

definition push :: "'r message \<Rightarrow> ('w, 'r) process \<Rightarrow> ('w, 'r) process" where
  "push msg s = s\<lparr>conversationHistory := conversationHistory s @ [msg]\<rparr>"

text \<open>One awaited call of the completion service: the request is traced, the world moves on.\<close>

definition create :: "('w, 'r) services \<Rightarrow> 'r completion_request \<Rightarrow> ('w, 'r) process
    \<Rightarrow> (js_error + completion) \<times> ('w, 'r) process" where
  "create sv req s =
     (case chat_completions_create sv (world s) req of
        (r, w) \<Rightarrow> (r, s\<lparr>world := w, trace := trace s @ [CompletionRequest req]\<rparr>))"

definition call_tool_host :: "('w, 'r) services \<Rightarrow> string \<Rightarrow> json \<Rightarrow> ('w, 'r) process
    \<Rightarrow> (js_error + 'r) \<times> ('w, 'r) process" where
  "call_tool_host sv toolName toolArgs s =
     (case callTool sv (world s) toolName toolArgs of
        (r, w) \<Rightarrow> (r, s\<lparr>world := w, trace := trace s @ [ToolInvocation toolName toolArgs]\<rparr>))"

text \<open>Reading \<open>choices[0].message\<close> of a response without choices throws a TypeError.\<close>

definition no_choice :: js_error where
  "no_choice = Error ''Cannot read properties of undefined (reading 'message')''"

subsection \<open>processQuery\<close>

text \<open>
  \<open>if (message.content) { finalText.push(content); history.push({ role: "assistant",
  content }) }\<close>, as processQuery does with the first response and with every follow-up
  response. A null or empty content is falsy.
\<close>

definition take_content :: "choice_message \<Rightarrow> string list \<Rightarrow> ('w, 'r) process
    \<Rightarrow> string list \<times> ('w, 'r) process" where
  "take_content msg finalText s =
     (case msg_content msg of
        None \<Rightarrow> (finalText, s)
      | Some c \<Rightarrow>
          (if c \<noteq> [] then (finalText @ [c], push (AssistantMessage c) s) else (finalText, s)))"

text \<open>
  The body of \<open>for (const toolCall of choice.message.tool_calls)\<close>, on the texts
  collected so far: parse the arguments, call the Tool Host, push the tool-call record
  and the tool's result, ask the completion service again (without the tool list) and
  keep its text when it has one.
\<close>

definition tool_call_step :: "js_runtime \<Rightarrow> ('w, 'r) services \<Rightarrow> tool_call \<Rightarrow> string list
    \<Rightarrow> ('w, 'r) process \<Rightarrow> (js_error + string list) \<times> ('w, 'r) process" where
  "tool_call_step rt sv toolCall finalText s =
     (let toolName = function_name toolCall in
      case JSON_parse rt (function_arguments toolCall) of
        Inl e \<Rightarrow> (Inl e, s)
      | Inr toolArgs \<Rightarrow>
          (case call_tool_host sv toolName toolArgs s of
             (Inl e, s1) \<Rightarrow> (Inl e, s1)
           | (Inr result, s1) \<Rightarrow>
               (let finalText1 = finalText @
                      [''[Calling tool '' @ toolName @ '' with args '' @ JSON_stringify rt toolArgs @ '']''];
                    s2 = push (AssistantToolCalls [toolCall]) s1;
                    s3 = push (ToolMessage (call_id toolCall) result) s2
                in case create sv
                          \<lparr>model = ''gpt-4-turbo-preview'', messages = conversationHistory s3,
                           request_tools = None, tool_choice = None\<rparr> s3 of
                     (Inl e, s4) \<Rightarrow> (Inl e, s4)
                   | (Inr response, s4) \<Rightarrow>
                       (case choices response of
                          [] \<Rightarrow> (Inl no_choice, s4)
                        | first # others \<Rightarrow>
                            (case take_content first finalText1 s4 of
                               (finalText2, s5) \<Rightarrow> (Inr finalText2, s5))))))"

text \<open>The loop over the tool calls of one response; a throw ends it.\<close>

fun tool_calls_loop :: "js_runtime \<Rightarrow> ('w, 'r) services \<Rightarrow> tool_call list \<Rightarrow> string list
    \<Rightarrow> ('w, 'r) process \<Rightarrow> (js_error + string list) \<times> ('w, 'r) process" where
  "tool_calls_loop rt sv [] finalText s = (Inr finalText, s)"
| "tool_calls_loop rt sv (toolCall # rest) finalText s =
     (case tool_call_step rt sv toolCall finalText s of
        (Inl e, s') \<Rightarrow> (Inl e, s')
      | (Inr finalText', s') \<Rightarrow> tool_calls_loop rt sv rest finalText' s')"

definition processQuery :: "js_runtime \<Rightarrow> ('w, 'r) services \<Rightarrow> string \<Rightarrow> ('w, 'r) process
    \<Rightarrow> (js_error + string) \<times> ('w, 'r) process" where
  "processQuery rt sv query s0 =
     (let s1 = push (UserMessage query) s0 in
      case create sv
             \<lparr>model = ''gpt-4o-mini'', messages = conversationHistory s1,
              request_tools = Some (tools s1), tool_choice = Some ''auto''\<rparr> s1 of
        (Inl e, s2) \<Rightarrow> (Inl e, s2)
      | (Inr response, s2) \<Rightarrow>
          (case choices response of
             [] \<Rightarrow> (Inl no_choice, s2)
           | choice # others \<Rightarrow>
               (case take_content choice [] s2 of
                  (finalText, s3) \<Rightarrow>
                    (case (case msg_tool_calls choice of
                             None \<Rightarrow> (Inr finalText, s3)
                           | Some tcs \<Rightarrow> tool_calls_loop rt sv tcs finalText s3) of
                       (Inl e, s4) \<Rightarrow> (Inl e, s4)
                     | (Inr finalText', s4) \<Rightarrow>
                         (Inr (join newline finalText'), trimConversationHistory s4)))))"


subsection \<open>connectToServer, chatLoop, cleanup and main\<close>

record node_process =
  argv :: "string list"
  platform :: string
  execPath :: string

definition connectToServer_try :: "('w, 'r) services \<Rightarrow> node_process \<Rightarrow> string \<Rightarrow> ('w, 'r) process
    \<Rightarrow> (js_error + unit) \<times> ('w, 'r) process" where
  "connectToServer_try sv node serverScriptPath s =
     (let isJs = endsWith serverScriptPath ''.js'';
          isPy = endsWith serverScriptPath ''.py''
      in if \<not> isJs \<and> \<not> isPy
         then (Inl (Error ''Server script must be a .js or .py file''), s)
         else
           (let cmd = (if isPy then (if platform node = ''win32'' then ''python'' else ''python3'')
                       else execPath node);
                tp = \<lparr>command = cmd, args = [serverScriptPath]\<rparr>;
                s1 = s\<lparr>transport := Some tp\<rparr>;
                s2 = s1\<lparr>world := mcp_connect sv (world s1) tp\<rparr>
            in case listTools sv (world s2) of
                 (Inl e, w) \<Rightarrow> (Inl e, s2\<lparr>world := w\<rparr>)
               | (Inr toolsResult, w) \<Rightarrow>
                   (let s3 = s2\<lparr>world := w,
                               tools := map (\<lambda>tool. \<lparr>fn_name = tool_name tool,
                                                      fn_description = tool_description tool,
                                                      fn_parameters = inputSchema tool\<rparr>) toolsResult\<rparr>
                    in (Inr (), s3\<lparr>console := console s3 @ [LogConnected (map fn_name (tools s3))]\<rparr>))))"

text \<open>The \<open>catch (e)\<close> of connectToServer: log, then \<open>throw e\<close>.\<close>

definition connectToServer :: "('w, 'r) services \<Rightarrow> node_process \<Rightarrow> string \<Rightarrow> ('w, 'r) process
    \<Rightarrow> (js_error + unit) \<times> ('w, 'r) process" where
  "connectToServer sv node serverScriptPath s =
     (case connectToServer_try sv node serverScriptPath s of
        (Inl e, s') \<Rightarrow> (Inl e, s'\<lparr>console := console s' @ [LogFailedToConnect e]\<rparr>)
      | (Inr u, s') \<Rightarrow> (Inr u, s'))"

text \<open>
  \<open>while (true)\<close> of chatLoop. The loop ends when the user types \<open>quit\<close> or when a call
  throws; \<open>None\<close> is a session that never ends.
\<close>

partial_function (option) chat_while :: "js_runtime \<Rightarrow> ('w, 'r) services \<Rightarrow> ('w, 'r) process
    \<Rightarrow> ((js_error + unit) \<times> ('w, 'r) process) option" where
  "chat_while rt sv s =
     (case rl_question sv (world s) of
        (Inl e, w) \<Rightarrow> Some (Inl e, s\<lparr>world := w\<rparr>)
      | (Inr line, w) \<Rightarrow>
          (if toLowerCase rt line = ''quit''
           then Some (Inr (), s\<lparr>world := w\<rparr>)
           else
             (case processQuery rt sv line (s\<lparr>world := w\<rparr>) of
                (Inl e, s') \<Rightarrow> Some (Inl e, s')
              | (Inr response, s') \<Rightarrow>
                  chat_while rt sv (s'\<lparr>console := console s' @ [LogResponse (newline @ response)]\<rparr>))))"

declare chat_while.simps [code]

definition chatLoop :: "js_runtime \<Rightarrow> ('w, 'r) services \<Rightarrow> ('w, 'r) process
    \<Rightarrow> ((js_error + unit) \<times> ('w, 'r) process) option" where
  "chatLoop rt sv s =
     chat_while rt sv (s\<lparr>console := console s @ [LogClientStarted, LogTypeYourQueries]\<rparr>)"

definition cleanup :: "('w, 'r) services \<Rightarrow> ('w, 'r) process \<Rightarrow> (js_error + unit) \<times> ('w, 'r) process" where
  "cleanup sv s = (case mcp_close sv (world s) of (r, w) \<Rightarrow> (r, s\<lparr>world := w\<rparr>))"

text \<open>
  How \<open>main()\<close> ends: it returns (the usage message), the process is ended by
  \<open>process.exit(code)\<close>, or the promise of \<open>main()\<close> rejects.
\<close>

datatype exit_status = MainReturned | ProcessExit nat | MainRejected js_error

text \<open>
  \<open>main\<close>, with the lines logged and the events observed. (The module checks
  \<open>OPENAI_API_KEY\<close> before it calls \<open>main\<close>; the model starts at the call.) The \<open>finally\<close> block runs
  whether or not the \<open>try\<close> block threw: \<open>cleanup()\<close>, then \<open>process.exit(0)\<close>; a throw
  of \<open>cleanup()\<close> replaces the pending one.
\<close>

definition main :: "js_runtime \<Rightarrow> ('w, 'r) services \<Rightarrow> node_process \<Rightarrow> 'w
    \<Rightarrow> (exit_status \<times> log_line list \<times> 'r event list) option" where
  "main rt sv node w =
     (if length (argv node) < 3
      then Some (MainReturned, [LogUsage], [])
      else
        (let mcpClient = new_MCPClient w in
         case (case connectToServer sv node (argv node ! 2) mcpClient of
                 (Inl e, s) \<Rightarrow> Some (Inl e, s)
               | (Inr u, s) \<Rightarrow> chatLoop rt sv s) of
           None \<Rightarrow> None
         | Some (tried, s) \<Rightarrow>
             (case cleanup sv s of
                (Inl e, s') \<Rightarrow> Some (MainRejected e, console s', trace s')
              | (Inr u, s') \<Rightarrow> Some (ProcessExit 0, console s', trace s'))))"


section \<open>Properties stated as predicates\<close>

text \<open>The first message of the history is the system instruction of the constructor.\<close>

definition system_first :: "('r, 'z) MCPClient_scheme \<Rightarrow> bool" where
  "system_first c =
     (case conversationHistory c of [] \<Rightarrow> False | m # rest \<Rightarrow> m = SystemMessage SYSTEM_PROMPT)"



section \<open>Concrete inputs for the examples\<close>

text \<open>
  A runtime for the examples. On the four bodies the examples use, its \<open>JSON.parse\<close>
  parses what Node parses, to the same value (\<open>null\<close>, \<open>{}\<close> and the object of
  \<open>limit_body\<close>), and throws where Node throws (\<open><html>\<close>; the SyntaxError's message
  is shortened). Its \<open>JSON.stringify\<close> and string conversion are Node's on the values
  the examples pass (\<open>{}\<close>, \<open>null\<close>, \<open>undefined\<close>); lower-casing is the ASCII one.
\<close>

definition dq :: "string \<Rightarrow> string" where
  "dq s = CHR 0x22 # s @ [CHR 0x22]"

definition limit_body :: string where
  "limit_body = ''{'' @ dq ''success'' @ '':false,'' @ dq ''message'' @ '':''
     @ dq ''maximum color count exceeded'' @ ''}''"

definition sample_parse :: "string \<Rightarrow> js_error + json" where
  "sample_parse s =
     (if s = ''null'' then Inr JNull
      else if s = ''{}'' then Inr (JObj [])
      else if s = limit_body
        then Inr (JObj [(''success'', JBool False), (''message'', JStr ''maximum color count exceeded'')])
      else Inl (Error ''Unexpected token''))"

definition lower_char :: "char \<Rightarrow> char" where
  "lower_char c = (let n = (of_char c :: nat) in if 65 \<le> n \<and> n \<le> 90 then char_of (n + 32) else c)"

definition sample_runtime :: js_runtime where
  "sample_runtime =
     \<lparr>JSON_parse = sample_parse,
      JSON_stringify = (\<lambda>v. if v = JObj [] then ''{}'' else ''null''),
      ToString = (\<lambda>v. if v = None then ''undefined'' else ''null''),
      toLowerCase = map lower_char\<rparr>"

text \<open>A webhook that answers every request with status 200 and the body \<open>b\<close>.\<close>

definition respond_with :: "string \<Rightarrow> fetch" where
  "respond_with b = (\<lambda>req. Inr \<lparr>status = 200, body_text = Inr b\<rparr>)"

text \<open>The arguments object \<open>{ mood: m, count: n }\<close>.\<close>

definition tool_args :: "string \<Rightarrow> number \<Rightarrow> jsval" where
  "tool_args m n = Some (JObj [(''mood'', JStr m), (''count'', JNum n)])"

text \<open>
  A completion service that answers a request carrying the tool list with two tool calls
  and no text, and any other request with the text \<open>ok\<close>; a Tool Host that answers
  every invocation with \<open>colors\<close>, lists no tools and closes without error; a user who
  types \<open>quit\<close>. The world counts the completion requests.
\<close>

definition first_call :: tool_call where
  "first_call = \<lparr>call_id = ''call_1'', function_name = ''get-colors-for-mood'', function_arguments = ''{}''\<rparr>"

definition second_call :: tool_call where
  "second_call = \<lparr>call_id = ''call_2'', function_name = ''get-colors-for-mood'', function_arguments = ''{}''\<rparr>"

definition two_calls_services :: "(nat, string) services" where
  "two_calls_services =
     \<lparr>chat_completions_create = (\<lambda>w req.
        (if request_tools req \<noteq> None
         then Inr \<lparr>choices = [\<lparr>msg_content = None, msg_tool_calls = Some [first_call, second_call]\<rparr>]\<rparr>
         else Inr \<lparr>choices = [\<lparr>msg_content = Some ''ok'', msg_tool_calls = None\<rparr>]\<rparr>, w + 1)),
      callTool = (\<lambda>w n a. (Inr ''colors'', w)),
      mcp_connect = (\<lambda>w tp. w),
      listTools = (\<lambda>w. (Inr [], w)),
      mcp_close = (\<lambda>w. (Inr (), w)),
      rl_question = (\<lambda>w. (Inr ''quit'', w))\<rparr>"

text \<open>\<open>node build/index.js server.txt\<close>: a server script that is neither \<open>.js\<close> nor \<open>.py\<close>.\<close>

definition text_node :: node_process where
  "text_node = \<lparr>argv = [''node'', ''build/index.js'', ''server.txt''],
                platform = ''linux'', execPath = ''/usr/bin/node''\<rparr>"

text \<open>A client that keeps one pair of messages and holds four.\<close>

definition short_client :: "string MCPClient" where
  "short_client =
     \<lparr>transport = None, tools = [],
      conversationHistory = [SystemMessage SYSTEM_PROMPT, UserMessage ''a'', AssistantMessage ''b'',
                             UserMessage ''c''],
      maxHistoryLength = 1\<rparr>"

text \<open>The client as constructed (ten pairs kept), holding 23 messages.\<close>

definition long_client :: "(nat, string) process" where
  "long_client = (new_MCPClient 0)
     \<lparr>conversationHistory := SystemMessage SYSTEM_PROMPT # map UserMessage
        [''turn 1'', ''turn 2'', ''turn 3'', ''turn 4'', ''turn 5'', ''turn 6'', ''turn 7'', ''turn 8'', ''turn 9'', ''turn 10'', ''turn 11'',
         ''turn 12'', ''turn 13'', ''turn 14'', ''turn 15'', ''turn 16'', ''turn 17'', ''turn 18'', ''turn 19'', ''turn 20'', ''turn 21'', ''turn 22'']\<rparr>"

text \<open>The arguments object \<open>{ mood: m }\<close>, without a count.\<close>

definition mood_only_args :: "string \<Rightarrow> jsval" where
  "mood_only_args m = Some (JObj [(''mood'', JStr m)])"

text \<open>A webhook that cannot be reached: \<open>fetch\<close> rejects.\<close>

definition refuse_connection :: fetch where
  "refuse_connection = (\<lambda>req. Inl (Error ''connect ECONNREFUSED''))"


section \<open>The tool servers: what the schemas admit and what the handlers return\<close>

lemma js_includes_self: "js_includes s s"
  by (cases s) auto

lemma js_includes_append: "js_includes (p @ s) s"
  by (induction p) (auto simp: js_includes_self)

lemma slice_0: "0 \<le> k \<Longrightarrow> slice 0 k xs = take (nat k) xs"
  by (auto simp: slice_def rel_index_def Let_def min_def)

lemma slice_from_neg:
  "0 < k \<Longrightarrow> k \<le> int (length xs) \<Longrightarrow> slice_from (- k) xs = drop (length xs - nat k) xs"
  by (simp add: slice_from_def slice_def rel_index_def Let_def nat_diff_distrib')


text \<open>
  Claim C4, as amended. No schema asks for an integer, and the static table's schema
  has no minimum. For arguments with a string mood: on a numeric count \<open>n\<close> the static
  tool always runs its handler, the remote tool without clamping is rejected exactly when
  \<open>n < 1\<close> and otherwise runs its handler on \<open>n\<close>, and the remote tool with clamping
  is rejected exactly when \<open>n < 1\<close> or \<open>2 < n\<close> and otherwise runs its handler on \<open>n\<close>;
  a count that is not a number is rejected by the three of them before the handler runs;
  an absent count is rejected by the static tool and taken as 1 by the two remote tools.
\<close>

theorem schema_acceptance:
  assumes "map_of kvs ''mood'' = Some (JStr m)"
  shows "(map_of kvs ''count'' = Some (JNum n) \<longrightarrow>
            static_tool (Some (JObj kvs)) = Handled [] (snd (static_handler m n))
          \<and> (unclamped_tool rt fetch (Some (JObj kvs)) = Rejected) = (n < 1)
          \<and> (clamped_tool rt fetch (Some (JObj kvs)) = Rejected) = (n < 1 \<or> 2 < n)
          \<and> (1 \<le> n \<longrightarrow> unclamped_tool rt fetch (Some (JObj kvs)) =
                Handled [webhook_request n m] (snd (getColorsForMood rt fetch m n)))
          \<and> (1 \<le> n \<longrightarrow> n \<le> 2 \<longrightarrow> clamped_tool rt fetch (Some (JObj kvs)) =
                Handled [webhook_request n m] (snd (clamped_handler rt fetch m n))))
       \<and> (map_of kvs ''count'' = Some v \<longrightarrow> (\<forall>k. v \<noteq> JNum k) \<longrightarrow>
            static_tool (Some (JObj kvs)) = Rejected
          \<and> unclamped_tool rt fetch (Some (JObj kvs)) = Rejected
          \<and> clamped_tool rt fetch (Some (JObj kvs)) = Rejected)
       \<and> (map_of kvs ''count'' = None \<longrightarrow>
            static_tool (Some (JObj kvs)) = Rejected
          \<and> unclamped_tool rt fetch (Some (JObj kvs)) =
               Handled [webhook_request 1 m] (snd (getColorsForMood rt fetch m 1))
          \<and> clamped_tool rt fetch (Some (JObj kvs)) =
               Handled [webhook_request 1 m] (snd (clamped_handler rt fetch m 1)))"
proof -
  have num: "static_tool (Some (JObj kvs)) = Handled [] (snd (static_handler m n))
          \<and> (unclamped_tool rt fetch (Some (JObj kvs)) = Rejected) = (n < 1)
          \<and> (clamped_tool rt fetch (Some (JObj kvs)) = Rejected) = (n < 1 \<or> 2 < n)
          \<and> (1 \<le> n \<longrightarrow> unclamped_tool rt fetch (Some (JObj kvs)) =
                Handled [webhook_request n m] (snd (getColorsForMood rt fetch m n)))
          \<and> (1 \<le> n \<longrightarrow> n \<le> 2 \<longrightarrow> clamped_tool rt fetch (Some (JObj kvs)) =
                Handled [webhook_request n m] (snd (clamped_handler rt fetch m n)))"
    if "map_of kvs ''count'' = Some (JNum n)"
    using that assms
    by (auto simp: static_tool_def unclamped_tool_def clamped_tool_def call_tool_def
        validate_args_def z_string_def z_number_def static_count_schema_def
        unclamped_count_schema_def clamped_count_schema_def static_handler_def Let_def
        getColorsForMood_def clamped_handler_def)
  have other: "static_tool (Some (JObj kvs)) = Rejected
          \<and> unclamped_tool rt fetch (Some (JObj kvs)) = Rejected
          \<and> clamped_tool rt fetch (Some (JObj kvs)) = Rejected"
    if "map_of kvs ''count'' = Some v" "\<forall>k. v \<noteq> JNum k"
    using that assms
    by (cases v)
       (simp_all add: static_tool_def unclamped_tool_def clamped_tool_def call_tool_def
        validate_args_def z_string_def z_number_def)
  have absent: "static_tool (Some (JObj kvs)) = Rejected
          \<and> unclamped_tool rt fetch (Some (JObj kvs)) =
               Handled [webhook_request 1 m] (snd (getColorsForMood rt fetch m 1))
          \<and> clamped_tool rt fetch (Some (JObj kvs)) =
               Handled [webhook_request 1 m] (snd (clamped_handler rt fetch m 1))"
    if "map_of kvs ''count'' = None"
    using that assms
    by (simp add: static_tool_def unclamped_tool_def clamped_tool_def call_tool_def
        validate_args_def z_string_def z_number_def static_count_schema_def
        unclamped_count_schema_def clamped_count_schema_def
        getColorsForMood_def clamped_handler_def)
  from num other absent show ?thesis by blast
qed

theorem schema_acceptance_witness:
  "map_of [(''mood'', JStr ''calm''), (''count'', JNum (3/2))] ''mood'' = Some (JStr ''calm'')
   \<and> static_tool (tool_args ''calm'' (3/2)) = Handled [] (snd (static_handler ''calm'' (3/2)))
   \<and> unclamped_tool sample_runtime (respond_with ''null'') (tool_args ''calm'' (3/2)) \<noteq> Rejected
   \<and> clamped_tool sample_runtime (respond_with ''null'') (tool_args ''calm'' (3/2)) \<noteq> Rejected
   \<and> clamped_tool sample_runtime (respond_with ''null'') (tool_args ''calm'' 3) = Rejected
   \<and> map_of [(''mood'', JStr ''calm'')] ''count'' = None
   \<and> static_tool (mood_only_args ''calm'') = Rejected
   \<and> outbound (unclamped_tool sample_runtime (respond_with ''null'') (mood_only_args ''calm'')) =
        [webhook_request 1 ''calm'']
   \<and> outbound (clamped_tool sample_runtime (respond_with ''null'') (mood_only_args ''calm'')) =
        [webhook_request 1 ''calm'']"
proof -
  have a: "map_of [(''mood'', JStr ''calm''), (''count'', JNum n)] ''mood'' = Some (JStr ''calm'')" for n
    by simp
  have b: "map_of [(''mood'', JStr ''calm'')] ''mood'' = Some (JStr ''calm'')"
    "map_of [(''mood'', JStr ''calm'')] ''count'' = None"
    by simp_all
  from schema_acceptance[where kvs = "[(''mood'', JStr ''calm''), (''count'', JNum (3/2))]"
            and m = "''calm''" and n = "3/2" and rt = sample_runtime and fetch = "respond_with ''null''"]
       schema_acceptance[where kvs = "[(''mood'', JStr ''calm''), (''count'', JNum 3)]"
            and m = "''calm''" and n = 3 and rt = sample_runtime and fetch = "respond_with ''null''"]
       schema_acceptance[where kvs = "[(''mood'', JStr ''calm'')]"
            and m = "''calm''" and rt = sample_runtime and fetch = "respond_with ''null''"] a b
  show ?thesis by (simp add: tool_args_def mood_only_args_def outbound_def)
qed

text \<open>
  Against claim C4 as stated: the static tool runs its handler on \<open>count = 0\<close>, and the
  two remote tools run theirs on \<open>count = 3/2\<close> and send it to the webhook.
\<close>

theorem schema_admits_zero_and_fractions:
  "static_tool (tool_args ''calm'' 0) =
      Handled [] (Inr (text_result (Some (JStr (''Colors for calm mood:'' @ [CHR 0x0A])))))
   \<and> outbound (unclamped_tool sample_runtime (respond_with ''null'') (tool_args ''calm'' (3/2))) =
      [webhook_request (3/2) ''calm'']
   \<and> outbound (clamped_tool sample_runtime (respond_with ''null'') (tool_args ''calm'' (3/2))) =
      [webhook_request (3/2) ''calm'']"
  by (simp add: static_tool_def unclamped_tool_def clamped_tool_def call_tool_def tool_args_def
        validate_args_def z_string_def z_number_def static_count_schema_def
        unclamped_count_schema_def clamped_count_schema_def static_handler_def Let_def
        getColorsForMood_def clamped_handler_def outbound_def trunc_def slice_def rel_index_def
        newline_def)

text \<open>
  Claim C7, as amended. For every count of at least 1 and every mood, the static table's
  handler returns the header line followed by the first \<open>\<lfloor>min(count, 5)\<rfloor>\<close> entries of
  the table, in table order, each as \<open>name (hex)\<close>, joined by newlines; that is
  \<open>min(count, 5)\<close> entries when the count is an integer. Mood \<open>happy\<close> with count 1
  gives \<open>Colors for happy mood:\<close>, a newline, \<open>Coral Red (#FF6B6B)\<close>.
\<close>

theorem static_returns_first_colors:
  assumes "1 \<le> count"
  shows "static_handler m count =
      ([], Inr (text_result (Some (JStr (''Colors for '' @ m @ '' mood:'' @ newline
         @ join newline (map format_color (take (nat \<lfloor>min count 5\<rfloor>) moodColors)))))))
    \<and> length (take (nat \<lfloor>min count 5\<rfloor>) moodColors) = nat \<lfloor>min count 5\<rfloor>
    \<and> (\<forall>n. count = of_int n \<longrightarrow> \<lfloor>min count 5\<rfloor> = min n 5)
    \<and> static_handler ''happy'' 1 =
      ([], Inr (text_result (Some (JStr (''Colors for happy mood:'' @ [CHR 0x0A] @ ''Coral Red (#FF6B6B)'')))))"
proof -
  have len: "length moodColors = 5" by (simp add: moodColors_def)
  have pos: "0 \<le> min count 5" using assms by simp
  then have "\<not> min count 5 < 0" by (simp only: not_less)
  then have tr: "trunc (min count 5) = \<lfloor>min count 5\<rfloor>"
    unfolding trunc_def by (simp only: if_False)
  have nonneg: "0 \<le> \<lfloor>min count 5\<rfloor>" using pos by simp
  have a: "static_handler m count =
      ([], Inr (text_result (Some (JStr (''Colors for '' @ m @ '' mood:'' @ newline
         @ join newline (map format_color (take (nat \<lfloor>min count 5\<rfloor>) moodColors)))))))"
    using nonneg by (simp add: static_handler_def Let_def len tr slice_0 del: zero_le_floor)
  have fl: "\<lfloor>min count 5\<rfloor> \<le> 5"
    using floor_mono[of "min count 5" "5::number"] by simp
  have n5: "nat \<lfloor>min count 5\<rfloor> \<le> 5"
    using fl by linarith
  have b: "length (take (nat \<lfloor>min count 5\<rfloor>) moodColors) = nat \<lfloor>min count 5\<rfloor>"
    using n5 by (simp only: length_take len min_absorb2)
  have c: "\<forall>n. count = of_int n \<longrightarrow> \<lfloor>min count 5\<rfloor> = min n 5"
    by (auto simp: min_def)
  have d: "static_handler ''happy'' 1 =
      ([], Inr (text_result (Some (JStr (''Colors for happy mood:'' @ [CHR 0x0A] @ ''Coral Red (#FF6B6B)'')))))"
    by (simp add: static_handler_def Let_def len trunc_def slice_def rel_index_def moodColors_def
          format_color_def newline_def)
  from a b c d show ?thesis by blast
qed

theorem static_returns_first_colors_witness:
  "(1::number) \<le> 7 \<and> static_handler ''calm'' 7 =
   ([], Inr (text_result (Some (JStr (''Colors for calm mood:'' @ newline
         @ join newline (map format_color moodColors))))))
   \<and> (1::number) \<le> 5/2 \<and> static_handler ''calm'' (5/2) =
   ([], Inr (text_result (Some (JStr (''Colors for calm mood:'' @ newline
         @ join newline (map format_color (take 2 moodColors)))))))"
proof -
  have f7: "\<lfloor>min (7::number) 5\<rfloor> = 5" by simp
  have f52: "\<lfloor>min (5/2::number) 5\<rfloor> = 2" by (simp add: floor_eq_iff)
  have l: "take 5 moodColors = moodColors" by (simp add: moodColors_def)
  from static_returns_first_colors[of 7 "''calm''"] static_returns_first_colors[of "5/2" "''calm''"]
  show ?thesis
    unfolding f7 f52 by (simp add: l)
qed

text \<open>
  Against claim C7 as stated: the schema admits \<open>count = 3/2\<close>, for which
  \<open>min(count, 5)\<close> is \<open>3/2\<close> and the handler returns one color.
\<close>

theorem static_fractional_count:
  "static_tool (tool_args ''happy'' (3/2)) =
      Handled [] (Inr (text_result (Some (JStr
        (''Colors for happy mood:'' @ [CHR 0x0A] @ ''Coral Red (#FF6B6B)'')))))
   \<and> min (3/2 :: number) (of_nat (length moodColors)) = 3/2"
proof -
  have f: "\<lfloor>3 / 2 :: number\<rfloor> = 1" by (simp add: floor_eq_iff)
  show ?thesis
    by (simp add: static_tool_def call_tool_def tool_args_def validate_args_def z_string_def
          z_number_def static_count_schema_def static_handler_def Let_def trunc_def slice_def
          rel_index_def moodColors_def format_color_def newline_def f)
qed




text \<open>
  Claim C9, as amended. No handler throws, and each returns exactly one content item of
  type \<open>text\<close>. The static table and the server with clamping always give a string as
  the text. The server without clamping gives a string when the request fails, when the
  body cannot be read, when the body is not JSON, when the body is \<open>null\<close>, and when
  the parsed object's \<open>message\<close> is a string; for every other parsed body the text is
  the body's \<open>message\<close> as it is, \<open>undefined\<close> when it has none.
\<close>

theorem handlers_return_one_text_result:
  "(\<exists>s. snd (static_handler m count) = Inr (text_result (Some (JStr s))))
   \<and> (\<exists>s. snd (clamped_handler rt fetch m count) = Inr (text_result (Some (JStr s))))
   \<and> (\<exists>t. snd (getColorsForMood rt fetch m count) = Inr (text_result t))
   \<and> length (content (text_result t)) = 1
   \<and> item_type (hd (content (text_result t))) = ''text''
   \<and> (fetch (webhook_request count m) = Inl e \<longrightarrow>
        snd (getColorsForMood rt fetch m count) = Inr (text_result (Some (JStr
          (if message e \<noteq> [] then message e else ''Unknown error occurred'')))))
   \<and> (fetch (webhook_request count m) = Inr response \<longrightarrow>
        (body_text response = Inl e \<longrightarrow>
           snd (getColorsForMood rt fetch m count) = Inr (text_result (Some (JStr
             (if message e \<noteq> [] then message e else ''Unknown error occurred'')))))
      \<and> (body_text response = Inr raw \<longrightarrow>
           (JSON_parse rt raw = Inl e \<longrightarrow>
              snd (getColorsForMood rt fetch m count) =
                Inr (text_result (Some (JStr (''Invalid response from color API: '' @ raw)))))
         \<and> (JSON_parse rt raw = Inr JNull \<longrightarrow>
              snd (getColorsForMood rt fetch m count) =
                Inr (text_result (Some (JStr ''Cannot read properties of null (reading 'message')''))))
         \<and> (\<forall>kvs s. JSON_parse rt raw = Inr (JObj kvs) \<longrightarrow> map_of kvs ''message'' = Some (JStr s) \<longrightarrow>
              snd (getColorsForMood rt fetch m count) = Inr (text_result (Some (JStr s))))
         \<and> (\<forall>data. JSON_parse rt raw = Inr data \<longrightarrow> data \<noteq> JNull \<longrightarrow>
              snd (getColorsForMood rt fetch m count) =
                Inr (text_result (case data of JObj kvs \<Rightarrow> map_of kvs ''message'' | _ \<Rightarrow> None)))))"
proof -
  have a: "\<exists>s. snd (static_handler m count) = Inr (text_result (Some (JStr s)))"
    by (simp add: static_handler_def Let_def del: append.simps append_Cons) blast
  have b: "\<exists>t. snd (getColorsForMood rt fetch m count) = Inr (text_result t)"
    by (cases "getColorsForMood_try rt fetch m count")
       (auto simp: getColorsForMood_def getColorsForMood_try_def split: sum.splits)
  have c: "\<exists>s. snd (clamped_handler rt fetch m count) = Inr (text_result (Some (JStr s)))"
    by (cases "clamped_handler_try rt fetch m count")
       (auto simp: clamped_handler_def clamped_handler_try_def Let_def split: sum.splits if_splits)
  have d: "length (content (text_result t)) = 1 \<and> item_type (hd (content (text_result t))) = ''text''"
    by (simp add: text_result_def)
  have f1: "snd (getColorsForMood rt fetch m count) = Inr (text_result (Some (JStr
          (if message e \<noteq> [] then message e else ''Unknown error occurred''))))"
    if "fetch (webhook_request count m) = Inl e"
    using that by (simp add: getColorsForMood_def getColorsForMood_try_def)
  have f2: "snd (getColorsForMood rt fetch m count) = Inr (text_result (Some (JStr
             (if message e \<noteq> [] then message e else ''Unknown error occurred''))))"
    if "fetch (webhook_request count m) = Inr response" "body_text response = Inl e"
    using that by (simp add: getColorsForMood_def getColorsForMood_try_def)
  have f3: "snd (getColorsForMood rt fetch m count) =
                Inr (text_result (Some (JStr (''Invalid response from color API: '' @ raw))))"
    if "fetch (webhook_request count m) = Inr response" "body_text response = Inr raw"
       "JSON_parse rt raw = Inl e"
    using that by (simp add: getColorsForMood_def getColorsForMood_try_def)
  have f4: "snd (getColorsForMood rt fetch m count) =
                Inr (text_result (Some (JStr ''Cannot read properties of null (reading 'message')'')))"
    if "fetch (webhook_request count m) = Inr response" "body_text response = Inr raw"
       "JSON_parse rt raw = Inr JNull"
    using that by (simp add: getColorsForMood_def getColorsForMood_try_def)
  have f5: "snd (getColorsForMood rt fetch m count) = Inr (text_result (Some (JStr s)))"
    if "fetch (webhook_request count m) = Inr response" "body_text response = Inr raw"
       "JSON_parse rt raw = Inr (JObj kvs)" "map_of kvs ''message'' = Some (JStr s)" for kvs s
    using that by (simp add: getColorsForMood_def getColorsForMood_try_def)
  have f6: "snd (getColorsForMood rt fetch m count) =
                Inr (text_result (case data of JObj kvs \<Rightarrow> map_of kvs ''message'' | _ \<Rightarrow> None))"
    if "fetch (webhook_request count m) = Inr response" "body_text response = Inr raw"
       "JSON_parse rt raw = Inr data" "data \<noteq> JNull" for data
    using that by (cases data) (simp_all add: getColorsForMood_def getColorsForMood_try_def)
  from a b c d f1 f2 f3 f4 f5 f6 show ?thesis by blast
qed

theorem handlers_return_one_text_result_witness:
  "refuse_connection (webhook_request 1 ''happy'') = Inl (Error ''connect ECONNREFUSED'')
   \<and> snd (getColorsForMood sample_runtime refuse_connection ''happy'' 1) =
       Inr (text_result (Some (JStr ''connect ECONNREFUSED'')))
   \<and> JSON_parse sample_runtime limit_body =
       Inr (JObj [(''success'', JBool False), (''message'', JStr ''maximum color count exceeded'')])
   \<and> snd (getColorsForMood sample_runtime (respond_with limit_body) ''happy'' 1) =
       Inr (text_result (Some (JStr ''maximum color count exceeded'')))"
proof -
  let ?resp = "\<lparr>status = 200, body_text = Inr limit_body\<rparr>"
  let ?kvs = "[(''success'', JBool False), (''message'', JStr ''maximum color count exceeded'')]"
  have r: "refuse_connection (webhook_request 1 ''happy'') = Inl (Error ''connect ECONNREFUSED'')"
    by (simp add: refuse_connection_def)
  have f: "respond_with limit_body (webhook_request 1 ''happy'') = Inr ?resp"
    by (simp add: respond_with_def)
  have b: "body_text ?resp = Inr limit_body" by simp
  have p: "JSON_parse sample_runtime limit_body = Inr (JObj ?kvs)"
    by (simp add: sample_runtime_def sample_parse_def limit_body_def dq_def)
  have ms: "map_of ?kvs ''message'' = Some (JStr ''maximum color count exceeded'')" by simp
  have one: "snd (getColorsForMood sample_runtime refuse_connection ''happy'' 1) =
       Inr (text_result (Some (JStr ''connect ECONNREFUSED'')))"
    using handlers_return_one_text_result[where fetch = refuse_connection and count = 1 and m = "''happy''"
            and e = "Error ''connect ECONNREFUSED''" and rt = sample_runtime] r
    by simp
  have two: "snd (getColorsForMood sample_runtime (respond_with limit_body) ''happy'' 1) =
       Inr (text_result (Some (JStr ''maximum color count exceeded'')))"
    using handlers_return_one_text_result[where fetch = "respond_with limit_body" and count = 1 and m = "''happy''"
            and response = "?resp" and raw = limit_body and rt = sample_runtime] f b p ms
    by blast
  from r one p two show ?thesis by simp
qed

text \<open>
  Against claim C9 as stated: on the body \<open>{}\<close> the server without clamping returns
  an item whose text is \<open>undefined\<close>, which is not a text result.
\<close>

theorem unclamped_missing_message:
  "JSON_parse sample_runtime ''{}'' = Inr (JObj [])
   \<and> snd (getColorsForMood sample_runtime (respond_with ''{}'') ''happy'' 1) = Inr (text_result None)
   \<and> item_text (hd (content (text_result None))) = None"
  by (simp add: sample_runtime_def sample_parse_def respond_with_def
      getColorsForMood_def getColorsForMood_try_def text_result_def)

text \<open>
  Claim C3, as amended. When the webhook's body is not valid JSON, both remote handlers
  return a text result without throwing: the server without clamping returns
  \<open>Invalid response from color API: \<close> followed by the raw body, which the text therefore
  contains; the server with clamping returns one of its two fixed apologies, the one
  about the count limit exactly when that same message includes \<open>maximum color count\<close>.
\<close>

theorem malformed_body_results:
  assumes "body_text response = Inr txt" and "JSON_parse rt txt = Inl e"
  shows "(fetch (webhook_request count m) = Inr response \<longrightarrow>
           snd (getColorsForMood rt fetch m count) =
             Inr (text_result (Some (JStr (''Invalid response from color API: '' @ txt))))
           \<and> js_includes (''Invalid response from color API: '' @ txt) txt)
       \<and> (fetch (webhook_request (min count 2) m) = Inr response \<longrightarrow>
           snd (clamped_handler rt fetch m count) =
             Inr (text_result (Some (JStr
               (if js_includes (''Invalid response from color API: '' @ txt) ''maximum color count''
                then count_limit_apology else generic_apology)))))"
proof -
  have inc: "js_includes (''Invalid response from color API: '' @ txt) txt"
    by (rule js_includes_append)
  have u: "snd (getColorsForMood rt fetch m count) =
             Inr (text_result (Some (JStr (''Invalid response from color API: '' @ txt))))"
    if "fetch (webhook_request count m) = Inr response"
    using that assms by (simp add: getColorsForMood_def getColorsForMood_try_def)
  have c: "snd (clamped_handler rt fetch m count) =
             Inr (text_result (Some (JStr
               (if js_includes (''Invalid response from color API: '' @ txt) ''maximum color count''
                then count_limit_apology else generic_apology))))"
    if "fetch (webhook_request (min count 2) m) = Inr response"
    using that assms by (simp add: clamped_handler_def clamped_handler_try_def Let_def)
  from inc u c show ?thesis by blast
qed

theorem malformed_body_results_witness:
  "body_text \<lparr>status = 200, body_text = Inr ''<html>''\<rparr> = Inr ''<html>''
   \<and> JSON_parse sample_runtime ''<html>'' = Inl (Error ''Unexpected token'')
   \<and> respond_with ''<html>'' (webhook_request 1 ''happy'') = Inr \<lparr>status = 200, body_text = Inr ''<html>''\<rparr>
   \<and> snd (getColorsForMood sample_runtime (respond_with ''<html>'') ''happy'' 1) =
       Inr (text_result (Some (JStr ''Invalid response from color API: <html>'')))
   \<and> snd (clamped_handler sample_runtime (respond_with ''<html>'') ''happy'' 1) =
       Inr (text_result (Some (JStr generic_apology)))"
proof -
  have p: "JSON_parse sample_runtime ''<html>'' = Inl (Error ''Unexpected token'')"
    by (simp add: sample_runtime_def sample_parse_def limit_body_def dq_def)
  have b: "body_text \<lparr>status = 200, body_text = Inr ''<html>''\<rparr> = Inr ''<html>''" by simp
  have f: "respond_with ''<html>'' req = Inr \<lparr>status = 200, body_text = Inr ''<html>''\<rparr>" for req
    by (simp add: respond_with_def)
  from malformed_body_results[OF b p, of "respond_with ''<html>''" 1 "''happy''"] f p b
  show ?thesis by simp
qed

text \<open>
  Against claim C3 as stated: on the body \<open><html>\<close>, which is not JSON, the server with
  clamping returns its generic apology, and that text does not contain the body.
\<close>

theorem clamped_malformed_body_hides_body:
  "JSON_parse sample_runtime ''<html>'' = Inl (Error ''Unexpected token'')
   \<and> snd (clamped_handler sample_runtime (respond_with ''<html>'') ''happy'' 1) =
       Inr (text_result (Some (JStr generic_apology)))
   \<and> \<not> js_includes generic_apology ''<html>''"
  by (simp add: sample_runtime_def sample_parse_def limit_body_def dq_def respond_with_def
      clamped_handler_def clamped_handler_try_def Let_def generic_apology_def)

text \<open>
  Claim C10, as amended. In the server without clamping, when the body parses to a
  value other than \<open>null\<close>, the returned text is that value's \<open>message\<close> member
  (\<open>undefined\<close> when it has none), whatever its \<open>success\<close> member is. In the server with
  clamping, a parsed object whose \<open>success\<close> is falsy gives one of the two fixed
  apologies, chosen by the object's message.
\<close>

theorem parsed_body_results:
  assumes "body_text response = Inr txt" and "JSON_parse rt txt = Inr data"
  shows "(fetch (webhook_request count m) = Inr response \<longrightarrow> data \<noteq> JNull \<longrightarrow>
           snd (getColorsForMood rt fetch m count) =
             Inr (text_result (case data of JObj kvs \<Rightarrow> map_of kvs ''message'' | _ \<Rightarrow> None)))
       \<and> (fetch (webhook_request (min count 2) m) = Inr response \<longrightarrow>
           (\<forall>kvs. data = JObj kvs \<longrightarrow> \<not> truthy (map_of kvs ''success'') \<longrightarrow>
             snd (clamped_handler rt fetch m count) =
               Inr (text_result (Some (JStr
                 (if js_includes
                       (if truthy (map_of kvs ''message'') then to_string rt (map_of kvs ''message'')
                        else ''API request failed'')
                       ''maximum color count''
                  then count_limit_apology else generic_apology))))))"
proof -
  have u: "snd (getColorsForMood rt fetch m count) =
             Inr (text_result (case data of JObj kvs \<Rightarrow> map_of kvs ''message'' | _ \<Rightarrow> None))"
    if "fetch (webhook_request count m) = Inr response" "data \<noteq> JNull"
    using that assms by (cases data) (simp_all add: getColorsForMood_def getColorsForMood_try_def)
  have c: "snd (clamped_handler rt fetch m count) =
               Inr (text_result (Some (JStr
                 (if js_includes
                       (if truthy (map_of kvs ''message'') then to_string rt (map_of kvs ''message'')
                        else ''API request failed'')
                       ''maximum color count''
                  then count_limit_apology else generic_apology))))"
    if "fetch (webhook_request (min count 2) m) = Inr response" "data = JObj kvs"
       "\<not> truthy (map_of kvs ''success'')" for kvs
    using that assms by (simp add: clamped_handler_def clamped_handler_try_def Let_def)
  from u c show ?thesis by blast
qed

theorem parsed_body_results_witness:
  "JSON_parse sample_runtime limit_body =
      Inr (JObj [(''success'', JBool False), (''message'', JStr ''maximum color count exceeded'')])
   \<and> \<not> truthy (map_of [(''success'', JBool False), (''message'', JStr ''maximum color count exceeded'')] ''success'')
   \<and> snd (getColorsForMood sample_runtime (respond_with limit_body) ''happy'' 1) =
       Inr (text_result (Some (JStr ''maximum color count exceeded'')))
   \<and> snd (clamped_handler sample_runtime (respond_with limit_body) ''happy'' 1) =
       Inr (text_result (Some (JStr count_limit_apology)))"
proof -
  let ?data = "JObj [(''success'', JBool False), (''message'', JStr ''maximum color count exceeded'')]"
  let ?resp = "\<lparr>status = 200, body_text = Inr limit_body\<rparr>"
  have p: "JSON_parse sample_runtime limit_body = Inr ?data"
    by (simp add: sample_runtime_def sample_parse_def limit_body_def dq_def)
  have b: "body_text ?resp = Inr limit_body" by simp
  have f: "respond_with limit_body req = Inr ?resp" for req
    by (simp add: respond_with_def)
  from parsed_body_results[OF b p, of "respond_with limit_body" 1 "''happy''"] f p
  show ?thesis by simp
qed

text \<open>
  Against claim C10 as stated: the body \<open>null\<close> parses as JSON, reading its \<open>message\<close>
  throws, and the server without clamping returns the TypeError's message as the text.
\<close>

theorem unclamped_null_body:
  "JSON_parse sample_runtime ''null'' = Inr JNull
   \<and> snd (getColorsForMood sample_runtime (respond_with ''null'') ''happy'' 1) =
       Inr (text_result (Some (JStr ''Cannot read properties of null (reading 'message')'')))"
  by (simp add: sample_runtime_def sample_parse_def respond_with_def
      getColorsForMood_def getColorsForMood_try_def)


section \<open>The client: the history, the loop over tool calls, and how main ends\<close>

subsection \<open>What each step does to the history and to the observed events\<close>

lemma system_first_trim: "system_first c \<Longrightarrow> system_first (trimConversationHistory c)"
  by (cases "conversationHistory c")
     (auto simp: system_first_def trimConversationHistory_def Let_def)

lemma system_first_append:
  "system_first s \<Longrightarrow> conversationHistory s' = conversationHistory s @ ext \<Longrightarrow> system_first s'"
  by (cases "conversationHistory s") (auto simp: system_first_def)

lemma history_push: "conversationHistory (push msg s) = conversationHistory s @ [msg]"
  by (simp add: push_def)



lemma history_create:
  "create sv req s = (r, s') \<Longrightarrow> conversationHistory s' = conversationHistory s"
  by (auto simp: create_def split: prod.splits)


lemma history_call_tool_host:
  "call_tool_host sv n a s = (r, s') \<Longrightarrow> conversationHistory s' = conversationHistory s"
  by (auto simp: call_tool_host_def split: prod.splits)



lemma history_take_content:
  "take_content msg ft s = (ft', s') \<Longrightarrow> \<exists>ext. conversationHistory s' = conversationHistory s @ ext"
  by (auto simp: take_content_def history_push split: option.splits if_splits)


lemma maxlen_push: "maxHistoryLength (push msg s) = maxHistoryLength s"
  by (simp add: push_def)

lemma maxlen_trim: "maxHistoryLength (trimConversationHistory c) = maxHistoryLength c"
  by (simp add: trimConversationHistory_def Let_def)

lemma maxlen_create:
  "create sv req s = (r, s') \<Longrightarrow> maxHistoryLength s' = maxHistoryLength s"
  by (auto simp: create_def split: prod.splits)

lemma maxlen_call_tool_host:
  "call_tool_host sv n a s = (r, s') \<Longrightarrow> maxHistoryLength s' = maxHistoryLength s"
  by (auto simp: call_tool_host_def split: prod.splits)

lemma maxlen_take_content:
  "take_content msg ft s = (ft', s') \<Longrightarrow> maxHistoryLength s' = maxHistoryLength s"
  by (auto simp: take_content_def maxlen_push split: option.splits if_splits)

text \<open>The loop body, once the arguments are parsed and the Tool Host has answered.\<close>

lemma tool_call_step_answered:
  assumes "JSON_parse rt (function_arguments tc) = Inr a"
    and "call_tool_host sv (function_name tc) a s = (Inr result, s1)"
    and "s3 = push (ToolMessage (call_id tc) result) (push (AssistantToolCalls [tc]) s1)"
    and "create sv \<lparr>model = ''gpt-4-turbo-preview'', messages = conversationHistory s3,
                     request_tools = None, tool_choice = None\<rparr> s3 = (r4, s4)"
  shows "tool_call_step rt sv tc ft s =
        (case r4 of
           Inl e \<Rightarrow> (Inl e, s4)
         | Inr response \<Rightarrow>
             (case choices response of
                [] \<Rightarrow> (Inl no_choice, s4)
              | first # others \<Rightarrow>
                  (case take_content first (ft @ [''[Calling tool '' @ function_name tc @ '' with args ''
                                     @ JSON_stringify rt a @ '']'']) s4 of
                     (ft2, s5) \<Rightarrow> (Inr ft2, s5))))"
  using assms unfolding tool_call_step_def Let_def by simp

text \<open>Whether it throws or not, the loop body only appends to the history.\<close>

lemma tool_call_step_history:
  assumes "tool_call_step rt sv tc ft s = (r, s')"
  shows "\<exists>ext. conversationHistory s' = conversationHistory s @ ext"
proof (cases "JSON_parse rt (function_arguments tc)")
  case (Inl e)
  with assms show ?thesis by (simp add: tool_call_step_def)
next
  case (Inr a)
  obtain r1 s1 where c1: "call_tool_host sv (function_name tc) a s = (r1, s1)" by force
  note h1 = history_call_tool_host[OF c1]
  show ?thesis
  proof (cases r1)
    case (Inl e)
    with assms Inr c1 h1 show ?thesis by (simp add: tool_call_step_def)
  next
    case r1: (Inr result)
    define s3 where "s3 = push (ToolMessage (call_id tc) result) (push (AssistantToolCalls [tc]) s1)"
    obtain r4 s4 where c4: "create sv \<lparr>model = ''gpt-4-turbo-preview'', messages = conversationHistory s3,
                     request_tools = None, tool_choice = None\<rparr> s3 = (r4, s4)" by force
    have h4: "conversationHistory s4 =
        conversationHistory s @ [AssistantToolCalls [tc], ToolMessage (call_id tc) result]"
      using history_create[OF c4] by (simp add: s3_def history_push h1)
    note step = tool_call_step_answered[OF Inr c1[unfolded r1] s3_def c4, of ft]
    from assms have "s' = s4 \<or> (\<exists>m f f2. take_content m f s4 = (f2, s'))"
      unfolding step by (auto split: sum.splits list.splits prod.splits)
    then show ?thesis
    proof
      assume "s' = s4"
      with h4 show ?thesis by simp
    next
      assume "\<exists>m f f2. take_content m f s4 = (f2, s')"
      then obtain m f f2 where "take_content m f s4 = (f2, s')" by blast
      from history_take_content[OF this] h4 show ?thesis by auto
    qed
  qed
qed


lemma tool_calls_loop_history:
  "tool_calls_loop rt sv tcs ft s = (r, s') \<Longrightarrow> \<exists>ext. conversationHistory s' = conversationHistory s @ ext"
proof (induction tcs arbitrary: ft s)
  case Nil
  then show ?case by simp
next
  case (Cons tc tcs)
  obtain r1 s1 where st: "tool_call_step rt sv tc ft s = (r1, s1)" by force
  from tool_call_step_history[OF st] obtain e1 where e1: "conversationHistory s1 = conversationHistory s @ e1" ..
  show ?case
  proof (cases r1)
    case (Inl e)
    with Cons.prems st e1 show ?thesis by auto
  next
    case (Inr ft1)
    with Cons.prems st have "tool_calls_loop rt sv tcs ft1 s1 = (r, s')" by simp
    from Cons.IH[OF this] e1 show ?thesis by auto
  qed
qed

text \<open>No step changes \<open>maxHistoryLength\<close>.\<close>

lemma maxlen_tool_call_step:
  assumes "tool_call_step rt sv tc ft s = (r, s')"
  shows "maxHistoryLength s' = maxHistoryLength s"
proof (cases "JSON_parse rt (function_arguments tc)")
  case (Inl e)
  with assms show ?thesis by (simp add: tool_call_step_def)
next
  case (Inr a)
  obtain r1 s1 where c1: "call_tool_host sv (function_name tc) a s = (r1, s1)" by force
  note m1 = maxlen_call_tool_host[OF c1]
  show ?thesis
  proof (cases r1)
    case (Inl e)
    with assms Inr c1 m1 show ?thesis by (simp add: tool_call_step_def)
  next
    case r1: (Inr result)
    define s3 where "s3 = push (ToolMessage (call_id tc) result) (push (AssistantToolCalls [tc]) s1)"
    obtain r4 s4 where c4: "create sv \<lparr>model = ''gpt-4-turbo-preview'', messages = conversationHistory s3,
                     request_tools = None, tool_choice = None\<rparr> s3 = (r4, s4)" by force
    have m4: "maxHistoryLength s4 = maxHistoryLength s"
      using maxlen_create[OF c4] by (simp add: s3_def maxlen_push m1)
    note step = tool_call_step_answered[OF Inr c1[unfolded r1] s3_def c4, of ft]
    from assms have "s' = s4 \<or> (\<exists>m f f2. take_content m f s4 = (f2, s'))"
      unfolding step by (auto split: sum.splits list.splits prod.splits)
    then show ?thesis
    proof
      assume "s' = s4"
      with m4 show ?thesis by simp
    next
      assume "\<exists>m f f2. take_content m f s4 = (f2, s')"
      then obtain m f f2 where "take_content m f s4 = (f2, s')" by blast
      from maxlen_take_content[OF this] m4 show ?thesis by simp
    qed
  qed
qed

lemma maxlen_tool_calls_loop:
  "tool_calls_loop rt sv tcs ft s = (r, s') \<Longrightarrow> maxHistoryLength s' = maxHistoryLength s"
proof (induction tcs arbitrary: ft s)
  case Nil
  then show ?case by simp
next
  case (Cons tc tcs)
  obtain r1 s1 where st: "tool_call_step rt sv tc ft s = (r1, s1)" by force
  note m1 = maxlen_tool_call_step[OF st]
  show ?case
  proof (cases r1)
    case (Inl e)
    with Cons.prems st m1 show ?thesis by auto
  next
    case (Inr ft1)
    with Cons.prems st have "tool_calls_loop rt sv tcs ft1 s1 = (r, s')" by simp
    from Cons.IH[OF this] m1 show ?thesis by simp
  qed
qed


subsection \<open>processQuery\<close>

lemma processQuery_first_throws:
  assumes "create sv \<lparr>model = ''gpt-4o-mini'', messages = conversationHistory (push (UserMessage q) s),
              request_tools = Some (tools (push (UserMessage q) s)), tool_choice = Some ''auto''\<rparr>
              (push (UserMessage q) s) = (Inl e, s2)"
  shows "processQuery rt sv q s = (Inl e, s2)"
  using assms unfolding processQuery_def Let_def by simp

lemma processQuery_first_answers:
  assumes "create sv \<lparr>model = ''gpt-4o-mini'', messages = conversationHistory (push (UserMessage q) s),
              request_tools = Some (tools (push (UserMessage q) s)), tool_choice = Some ''auto''\<rparr>
              (push (UserMessage q) s) = (Inr response, s2)"
  shows "processQuery rt sv q s =
          (case choices response of
             [] \<Rightarrow> (Inl no_choice, s2)
           | choice # others \<Rightarrow>
               (case take_content choice [] s2 of
                  (finalText, s3) \<Rightarrow>
                    (case (case msg_tool_calls choice of
                             None \<Rightarrow> (Inr finalText, s3)
                           | Some tcs \<Rightarrow> tool_calls_loop rt sv tcs finalText s3) of
                       (Inl e, s4) \<Rightarrow> (Inl e, s4)
                     | (Inr finalText', s4) \<Rightarrow>
                         (Inr (join newline finalText'), trimConversationHistory s4))))"
  using assms unfolding processQuery_def Let_def by simp

text \<open>
  Whatever processQuery returns or throws, the history it leaves is the old one with
  messages appended, trimmed or not.
\<close>

lemma processQuery_history:
  assumes "processQuery rt sv q s = (r, s')"
  shows "\<exists>s4 ext. conversationHistory s4 = conversationHistory s @ ext
            \<and> (s' = s4 \<or> s' = trimConversationHistory s4)"
proof -
  let ?s1 = "push (UserMessage q) s"
  obtain r2 s2 where c2: "create sv \<lparr>model = ''gpt-4o-mini'', messages = conversationHistory ?s1,
              request_tools = Some (tools ?s1), tool_choice = Some ''auto''\<rparr> ?s1 = (r2, s2)" by force
  have h2: "conversationHistory s2 = conversationHistory s @ [UserMessage q]"
    using history_create[OF c2] by (simp add: history_push)
  show ?thesis
  proof (cases r2)
    case (Inl e)
    with assms processQuery_first_throws[OF c2[unfolded Inl], of rt] h2 show ?thesis by auto
  next
    case (Inr response)
    note pq = processQuery_first_answers[OF c2[unfolded Inr], of rt]
    show ?thesis
    proof (cases "choices response")
      case Nil
      with assms pq h2 show ?thesis by auto
    next
      case (Cons choice others)
      obtain ft s3 where tk: "take_content choice [] s2 = (ft, s3)" by force
      from history_take_content[OF tk] h2 obtain e3 where
        h3: "conversationHistory s3 = conversationHistory s @ e3" by auto
      obtain r4 s4 where lp: "(case msg_tool_calls choice of
                             None \<Rightarrow> (Inr ft, s3)
                           | Some tcs \<Rightarrow> tool_calls_loop rt sv tcs ft s3) = (r4, s4)" by force
      have "\<exists>e4. conversationHistory s4 = conversationHistory s3 @ e4"
      proof (cases "msg_tool_calls choice")
        case None
        with lp show ?thesis by auto
      next
        case (Some tcs)
        with lp tool_calls_loop_history[of rt sv tcs ft s3 r4 s4] show ?thesis by simp
      qed
      with h3 obtain e4 where h4: "conversationHistory s4 = conversationHistory s @ e4" by auto
      from assms have "s' = s4 \<or> s' = trimConversationHistory s4"
        unfolding pq Cons by (cases r4) (simp_all add: tk lp)
      with h4 show ?thesis by blast
    qed
  qed
qed

text \<open>
  Claim C6. The first message of the history is the system instruction after the
  constructor, and stays so through processQuery (whether it returns or throws) and
  through trimming.
\<close>

theorem system_message_stays_first:
  "system_first (new_MCPClient w :: ('w, 'r) process)
   \<and> (system_first s \<longrightarrow> system_first (snd (processQuery rt sv q (s :: ('w, 'r) process))))
   \<and> (system_first c \<longrightarrow> system_first (trimConversationHistory c))"
proof -
  have a: "system_first (new_MCPClient w :: ('w, 'r) process)"
    by (simp add: system_first_def new_MCPClient_def)
  have b: "system_first (snd (processQuery rt sv q s))" if inv: "system_first s"
  proof -
    obtain r s' where pq: "processQuery rt sv q s = (r, s')" by force
    from processQuery_history[OF pq] obtain s4 ext where
      h: "conversationHistory s4 = conversationHistory s @ ext"
      and e: "s' = s4 \<or> s' = trimConversationHistory s4" by blast
    from system_first_append[OF inv h] have "system_first s4" .
    with e system_first_trim have "system_first s'" by blast
    with pq show ?thesis by simp
  qed
  from a b system_first_trim show ?thesis by blast
qed

theorem system_message_stays_first_witness:
  "system_first (new_MCPClient (0::nat) :: (nat, string) process)
   \<and> system_first (snd (processQuery sample_runtime two_calls_services ''pick'' (new_MCPClient 0)))
   \<and> system_first short_client
   \<and> system_first (trimConversationHistory short_client)
   \<and> conversationHistory (trimConversationHistory short_client) =
        [SystemMessage SYSTEM_PROMPT, AssistantMessage ''b'', UserMessage ''c'']"
proof -
  have a: "system_first short_client"
    by (simp add: system_first_def short_client_def)
  have t: "conversationHistory (trimConversationHistory short_client) =
        [SystemMessage SYSTEM_PROMPT, AssistantMessage ''b'', UserMessage ''c'']"
    by (simp add: trimConversationHistory_def short_client_def Let_def slice_from_def slice_def
        rel_index_def)
  from system_message_stays_first[of "0::nat" "new_MCPClient 0" sample_runtime two_calls_services
         "''pick''" short_client] a t
  show ?thesis by simp
qed

lemma maxlen_processQuery:
  "maxHistoryLength (snd (processQuery rt sv q s)) = maxHistoryLength s"
proof -
  let ?s1 = "push (UserMessage q) s"
  obtain r s' where run: "processQuery rt sv q s = (r, s')" by force
  obtain r2 s2 where c2: "create sv \<lparr>model = ''gpt-4o-mini'', messages = conversationHistory ?s1,
              request_tools = Some (tools ?s1), tool_choice = Some ''auto''\<rparr> ?s1 = (r2, s2)" by force
  have m2: "maxHistoryLength s2 = maxHistoryLength s"
    using maxlen_create[OF c2] by (simp add: maxlen_push)
  have "maxHistoryLength s' = maxHistoryLength s"
  proof (cases r2)
    case (Inl e)
    with run processQuery_first_throws[OF c2[unfolded Inl], of rt] m2 show ?thesis by auto
  next
    case (Inr response)
    note pq = processQuery_first_answers[OF c2[unfolded Inr], of rt]
    show ?thesis
    proof (cases "choices response")
      case Nil
      with run pq m2 show ?thesis by auto
    next
      case (Cons choice others)
      obtain ft s3 where tk: "take_content choice [] s2 = (ft, s3)" by force
      from maxlen_take_content[OF tk] m2 have m3: "maxHistoryLength s3 = maxHistoryLength s" by simp
      obtain r4 s4 where lp: "(case msg_tool_calls choice of
                             None \<Rightarrow> (Inr ft, s3)
                           | Some tcs \<Rightarrow> tool_calls_loop rt sv tcs ft s3) = (r4, s4)" by force
      have "maxHistoryLength s4 = maxHistoryLength s3"
      proof (cases "msg_tool_calls choice")
        case None
        with lp show ?thesis by auto
      next
        case (Some tcs)
        with lp maxlen_tool_calls_loop[of rt sv tcs ft s3 r4 s4] show ?thesis by simp
      qed
      with m3 have m4: "maxHistoryLength s4 = maxHistoryLength s" by simp
      from run have "s' = s4 \<or> s' = trimConversationHistory s4"
        unfolding pq Cons by (cases r4) (simp_all add: tk lp)
      with m4 show ?thesis by (auto simp: maxlen_trim)
    qed
  qed
  with run show ?thesis by simp
qed

text \<open>
  Claim C5. The constructor sets \<open>maxHistoryLength\<close> to 10 and neither processQuery nor
  trimming changes it, so M is 10 in every client the program runs. For every history and
  every M of at least 1, and so for the default 10, trimming leaves the history as it is
  when it has at most \<open>2M + 1\<close> messages, and otherwise replaces it by its first message
  followed by exactly its last \<open>2M\<close> messages, in their order.
\<close>

theorem trim_keeps_last_pairs:
  "maxHistoryLength (new_MCPClient w :: ('w, 'r) process) = 10
   \<and> maxHistoryLength (snd (processQuery rt sv q (s :: ('w, 'r) process))) = maxHistoryLength s
   \<and> maxHistoryLength (trimConversationHistory c) = maxHistoryLength c
   \<and> (1 \<le> maxHistoryLength c \<longrightarrow>
        conversationHistory (trimConversationHistory c) =
          (if length (conversationHistory c) \<le> 2 * maxHistoryLength c + 1
           then conversationHistory c
           else conversationHistory c ! 0
                # drop (length (conversationHistory c) - 2 * maxHistoryLength c) (conversationHistory c))
      \<and> (2 * maxHistoryLength c + 1 < length (conversationHistory c) \<longrightarrow>
           length (drop (length (conversationHistory c) - 2 * maxHistoryLength c) (conversationHistory c))
             = 2 * maxHistoryLength c))
   \<and> (maxHistoryLength c = 10 \<longrightarrow>
        conversationHistory (trimConversationHistory c) =
          (if length (conversationHistory c) \<le> 21
           then conversationHistory c
           else conversationHistory c ! 0
                # drop (length (conversationHistory c) - 20) (conversationHistory c)))"
proof -
  have a: "maxHistoryLength (new_MCPClient w :: ('w, 'r) process) = 10"
    by (simp add: new_MCPClient_def)
  have general: "conversationHistory (trimConversationHistory c) =
          (if length (conversationHistory c) \<le> 2 * maxHistoryLength c + 1
           then conversationHistory c
           else conversationHistory c ! 0
                # drop (length (conversationHistory c) - 2 * maxHistoryLength c) (conversationHistory c))
      \<and> (2 * maxHistoryLength c + 1 < length (conversationHistory c) \<longrightarrow>
           length (drop (length (conversationHistory c) - 2 * maxHistoryLength c) (conversationHistory c))
             = 2 * maxHistoryLength c)"
    if pos: "1 \<le> maxHistoryLength c"
  proof (cases "length (conversationHistory c) \<le> 2 * maxHistoryLength c + 1")
    case True
    then show ?thesis by (simp add: trimConversationHistory_def)
  next
    case False
    let ?h = "conversationHistory c"
    let ?M = "maxHistoryLength c"
    from False have big: "int ?M * 2 + 1 < int (length ?h)" by simp
    have "slice_from (- (int ?M * 2)) ?h = drop (length ?h - nat (int ?M * 2)) ?h"
      using pos big by (intro slice_from_neg) simp_all
    moreover have "nat (int ?M * 2) = 2 * ?M" by simp
    ultimately have "slice_from (- (int ?M * 2)) ?h = drop (length ?h - 2 * ?M) ?h" by simp
    with False big show ?thesis by (simp add: trimConversationHistory_def Let_def)
  qed
  have ten: "conversationHistory (trimConversationHistory c) =
          (if length (conversationHistory c) \<le> 21
           then conversationHistory c
           else conversationHistory c ! 0
                # drop (length (conversationHistory c) - 20) (conversationHistory c))"
    if "maxHistoryLength c = 10"
    using general that by simp
  from a maxlen_processQuery maxlen_trim general ten show ?thesis by blast
qed

theorem trim_keeps_last_pairs_witness:
  "maxHistoryLength long_client = 10
   \<and> length (conversationHistory long_client) = 23
   \<and> conversationHistory (trimConversationHistory long_client) =
       SystemMessage SYSTEM_PROMPT # map UserMessage
        [''turn 3'', ''turn 4'', ''turn 5'', ''turn 6'', ''turn 7'', ''turn 8'', ''turn 9'', ''turn 10'', ''turn 11'',
         ''turn 12'', ''turn 13'', ''turn 14'', ''turn 15'', ''turn 16'', ''turn 17'', ''turn 18'', ''turn 19'', ''turn 20'', ''turn 21'', ''turn 22'']"
proof -
  have m: "maxHistoryLength long_client = 10" by (simp add: long_client_def new_MCPClient_def)
  have l: "length (conversationHistory long_client) = 23" by (simp add: long_client_def)
  from trim_keeps_last_pairs[where c = long_client and w = "0::nat" and s = long_client and rt = sample_runtime
            and sv = two_calls_services and q = "''x''"] m l
  have "conversationHistory (trimConversationHistory long_client) =
      conversationHistory long_client ! 0 # drop 3 (conversationHistory long_client)"
    by simp
  with m l show ?thesis by (simp add: long_client_def)
qed




subsection \<open>chatLoop and main\<close>

text \<open>Typing \<open>quit\<close>, in any case, ends the loop at once: no completion request is made.\<close>

lemma chat_while_quit:
  assumes "rl_question sv (world s) = (Inr line, w)" and "toLowerCase rt line = ''quit''"
  shows "chat_while rt sv s = Some (Inr (), s\<lparr>world := w\<rparr>)"
  by (subst chat_while.simps) (simp add: assms)

lemma trace_connectToServer:
  "connectToServer sv node path s = (r, s') \<Longrightarrow> trace s' = trace s"
  by (auto simp: connectToServer_def connectToServer_try_def Let_def
      split: prod.splits sum.splits if_splits)

lemma console_connectToServer:
  "connectToServer sv node path s = (Inl e, s') \<Longrightarrow> \<exists>before. console s' = before @ [LogFailedToConnect e]"
  by (auto simp: connectToServer_def split: prod.splits sum.splits)

text \<open>
  Claim C2, as amended. When connectToServer throws, it has logged the failure last,
  the chat loop is not entered (no completion request, no tool invocation), cleanup
  runs, and the program ends with \<open>process.exit(0)\<close>, exit code 0, once cleanup has
  returned; when cleanup throws, the promise of main rejects with cleanup's error.
\<close>

theorem connect_failure_ends_main:
  assumes "3 \<le> length (argv node)"
    and "connectToServer sv node (argv node ! 2) (new_MCPClient w) = (Inl e, s)"
  shows "main rt sv node w =
           Some (case fst (mcp_close sv (world s)) of
                   Inl e' \<Rightarrow> MainRejected e'
                 | Inr u \<Rightarrow> ProcessExit 0,
                 console s, trace s)
       \<and> last (console s) = LogFailedToConnect e
       \<and> trace s = []"
proof -
  obtain r w' where cl: "mcp_close sv (world s) = (r, w')" by force
  have m: "main rt sv node w =
           Some (case fst (mcp_close sv (world s)) of
                   Inl e' \<Rightarrow> MainRejected e'
                 | Inr u \<Rightarrow> ProcessExit 0,
                 console s, trace s)"
    using assms cl by (cases r) (simp_all add: main_def Let_def cleanup_def)
  from console_connectToServer[OF assms(2)] have l: "last (console s) = LogFailedToConnect e"
    by auto
  from trace_connectToServer[OF assms(2)] have t: "trace s = []"
    by (simp add: new_MCPClient_def)
  from m l t show ?thesis by simp
qed

theorem connect_failure_ends_main_witness:
  "3 \<le> length (argv text_node)
   \<and> connectToServer two_calls_services text_node (argv text_node ! 2) (new_MCPClient 0) =
       (Inl (Error ''Server script must be a .js or .py file''),
        (new_MCPClient 0)\<lparr>console := [LogFailedToConnect (Error ''Server script must be a .js or .py file'')]\<rparr>)
   \<and> main sample_runtime two_calls_services text_node 0 =
       Some (ProcessExit 0, [LogFailedToConnect (Error ''Server script must be a .js or .py file'')], [])"
proof -
  have a: "3 \<le> length (argv text_node)" by (simp add: text_node_def)
  have b: "connectToServer two_calls_services text_node (argv text_node ! 2) (new_MCPClient 0) =
       (Inl (Error ''Server script must be a .js or .py file''),
        (new_MCPClient 0)\<lparr>console := [LogFailedToConnect (Error ''Server script must be a .js or .py file'')]\<rparr>)"
    by (simp add: connectToServer_def connectToServer_try_def endsWith_def text_node_def
        new_MCPClient_def Let_def)
  from connect_failure_ends_main[OF a b, of sample_runtime] a b show ?thesis
    by (simp add: two_calls_services_def new_MCPClient_def)
qed

text \<open>
  Against claim C2 as stated: started on \<open>server.txt\<close>, connectToServer throws, the
  failure is logged, and the program ends with exit code 0.
\<close>

theorem connect_failure_exit_code_zero:
  "main sample_runtime two_calls_services text_node 0 =
     Some (ProcessExit 0, [LogFailedToConnect (Error ''Server script must be a .js or .py file'')], [])"
  by (simp add: main_def Let_def connectToServer_def connectToServer_try_def endsWith_def
      cleanup_def new_MCPClient_def two_calls_services_def text_node_def)


end
